theory Spec2Isabelle
  imports Main "HOL-Library.Sublist"
begin

section \<open>Strings and numbers of the host language\<close>

text \<open>
  Strings are byte lists. \<open>str_includes s t\<close> is \<^verbatim>\<open>s.includes(t)\<close>: \<open>t\<close> occurs in \<open>s\<close> as a
  contiguous substring (the empty string occurs everywhere).
\<close>

fun str_includes :: "string \<Rightarrow> string \<Rightarrow> bool" where
  "str_includes [] t = (t = [])"
| "str_includes (c # cs) t = (prefix t (c # cs) \<or> str_includes cs t)"

text \<open>\<^verbatim>\<open>toLowerCase()\<close> on the ASCII letters, which is all that header names use.\<close>

definition toLowerCase_char :: "char \<Rightarrow> char" where
  "toLowerCase_char c =
     (case map_of (zip ''ABCDEFGHIJKLMNOPQRSTUVWXYZ'' ''abcdefghijklmnopqrstuvwxyz'') c of
        None \<Rightarrow> c
      | Some l \<Rightarrow> l)"

definition toLowerCase :: "string \<Rightarrow> string" where
  "toLowerCase s = map toLowerCase_char s"

text \<open>
  The decimal rendering of an integer inside a template literal. (ECMAScript switches to
  exponent notation from \<open>10^21\<close> on; clock values and the numbers below 256 used here are
  far smaller.)
\<close>

definition digit_char :: "nat \<Rightarrow> char" where
  "digit_char n = ''0123456789'' ! (n mod 10)"

fun String_nat :: "nat \<Rightarrow> string" where
  "String_nat n =
     (if n < 10 then [digit_char n] else String_nat (n div 10) @ [digit_char (n mod 10)])"

declare String_nat.simps [simp del]

definition String_int :: "int \<Rightarrow> string" where
  "String_int i = (if i < 0 then CHR ''-'' # String_nat (nat (- i)) else String_nat (nat i))"

text \<open>
  \<^verbatim>\<open>encodeURIComponent\<close>: the unreserved characters stay, every other byte becomes
  \<open>%XX\<close> with upper-case hexadecimal digits.
\<close>

definition uri_unreserved :: "char \<Rightarrow> bool" where
  "uri_unreserved c =
     (c \<in> set (''ABCDEFGHIJKLMNOPQRSTUVWXYZabcdefghijklmnopqrstuvwxyz0123456789-_.!~*()''
               @ [CHR 0x27]))"

definition hex_digit :: "nat \<Rightarrow> char" where
  "hex_digit n = ''0123456789ABCDEF'' ! (n mod 16)"

definition percent_encode :: "char \<Rightarrow> string" where
  "percent_encode c = [CHR ''%'', hex_digit (of_char c div 16), hex_digit (of_char c mod 16)]"

definition encodeURIComponent :: "string \<Rightarrow> string" where
  "encodeURIComponent s =
     concat (map (\<lambda>c. if uri_unreserved c then [c] else percent_encode c) s)"

text \<open>An awaited call or a constructor either throws or returns a value.\<close>

datatype 'a outcome = Throws | Returns 'a

section \<open>Configuration (\<^verbatim>\<open>src/api/proxy/route.ts\<close>)\<close>

datatype rule_type = Url | Header | Content

record TransformRule =
  pattern :: string
  replacement :: string
  type :: rule_type

record ProxyConfig =
  enabled :: bool
  cacheTTL :: int
  maxContentLength :: int
  allowedDomains :: "string list"
  blockedDomains :: "string list"
  transformRules :: "TransformRule list"

definition DEFAULT_CONFIG :: ProxyConfig where
  "DEFAULT_CONFIG =
     \<lparr>enabled = True, cacheTTL = 3600, maxContentLength = 10 * 1024 * 1024,
      allowedDomains = [], blockedDomains = [], transformRules = []\<rparr>"

text \<open>
  What \<^verbatim>\<open>get('proxy-config')\<close> resolves to: an object (cast to \<^verbatim>\<open>ProxyConfig\<close> without
  validation; the model takes it as well typed), an array, or anything else (undefined,
  null, a primitive).
\<close>

datatype config_data = ConfigObject ProxyConfig | ConfigArray | ConfigPrimitive

definition select_config :: "config_data \<Rightarrow> ProxyConfig" where
  "select_config configData =
     (case configData of ConfigObject c \<Rightarrow> c | ConfigArray \<Rightarrow> DEFAULT_CONFIG
      | ConfigPrimitive \<Rightarrow> DEFAULT_CONFIG)"

section \<open>The platform\<close>

text \<open>
  A plain object used as a header record has case-sensitive keys; a Fetch \<^verbatim>\<open>Headers\<close>
  object stores lower-case names and looks names up case-insensitively.
\<close>

type_synonym header_record = "string \<rightharpoonup> string"

type_synonym Headers = "string \<rightharpoonup> string"

definition Headers_get :: "Headers \<Rightarrow> string \<Rightarrow> string option" where
  "Headers_get h name = h (toLowerCase name)"

record proxy_request =
  pr_url :: string
  pr_method :: string
  pr_headers :: header_record
  pr_body :: "string option"

text \<open>
  The parts of the runtime the handler calls and that are not code of the repository:
  \<^item> \<open>regexp_valid p\<close>: \<^verbatim>\<open>new RegExp(p, 'g')\<close> does not throw a SyntaxError;
  \<^item> \<open>regexp_replace p r s\<close>: \<^verbatim>\<open>s.replace(new RegExp(p, 'g'), r)\<close>;
  \<^item> \<open>regexp_test p s\<close>: the pattern \<open>p\<close> matches somewhere in \<open>s\<close>;
  \<^item> \<open>url_hostname s\<close>: \<^verbatim>\<open>new URL(s).hostname\<close>, \<open>None\<close> when the constructor throws;
  \<^item> \<open>new_Request r\<close>: \<^verbatim>\<open>new Request(url, {method, headers, body})\<close> does not throw;
  \<^item> \<open>utf8_decode b\<close>: the non-fatal \<^verbatim>\<open>TextDecoder('utf-8')\<close>.
\<close>

record platform =
  regexp_valid :: "string \<Rightarrow> bool"
  regexp_replace :: "string \<Rightarrow> string \<Rightarrow> string \<Rightarrow> string"
  regexp_test :: "string \<Rightarrow> string \<Rightarrow> bool"
  url_hostname :: "string \<Rightarrow> string option"
  new_Request :: "proxy_request \<Rightarrow> bool"
  utf8_decode :: "string \<Rightarrow> string"

section \<open>ScramjetEngine\<close>

text \<open>
  The loop shared by \<^verbatim>\<open>rewriteUrl\<close> and \<^verbatim>\<open>transformContent\<close>: every rule of the wanted
  kind is compiled and applied to the output of the rules before it; compiling an invalid
  pattern throws, and nothing in the engine catches it.
\<close>

fun apply_rules :: "platform \<Rightarrow> rule_type \<Rightarrow> TransformRule list \<Rightarrow> string \<Rightarrow> string outcome" where
  "apply_rules P k [] s = Returns s"
| "apply_rules P k (rule # rules) s =
     (if type rule = k then
        (if regexp_valid P (pattern rule)
         then apply_rules P k rules (regexp_replace P (pattern rule) (replacement rule) s)
         else Throws)
      else apply_rules P k rules s)"

definition censoredDomains :: "string list" where
  "censoredDomains = [''blocked-site.com'', ''restricted-content.org'']"

definition shouldApplyDomainFronting :: "string \<Rightarrow> bool" where
  "shouldApplyDomainFronting url = list_ex (\<lambda>domain. str_includes url domain) censoredDomains"

definition frontDomains :: "string list" where
  "frontDomains = [''google.com'', ''cloudflare.com'', ''aws.amazon.com'']"

text \<open>
  \<^verbatim>\<open>Math.floor(Math.random() * n)\<close> is an integer in \<open>[0, n)\<close>; the draw \<open>d\<close> stands for
  the random number.
\<close>

definition random_index :: "nat \<Rightarrow> nat \<Rightarrow> nat" where
  "random_index d n = d mod n"

text \<open>The replaced prefix is what \<^verbatim>\<open>/^https?:\/\//\<close> matches.\<close>

definition applyDomainFronting :: "nat \<Rightarrow> string \<Rightarrow> string" where
  "applyDomainFronting d url =
     (let randomFront = frontDomains ! random_index d (length frontDomains);
          front = ''https://'' @ randomFront @ ''/proxy?url='' @ encodeURIComponent url @ ''&''
      in if prefix ''https://'' url then front @ drop 8 url
         else if prefix ''http://'' url then front @ drop 7 url
         else url)"

definition rewriteUrl :: "platform \<Rightarrow> ProxyConfig \<Rightarrow> nat \<Rightarrow> string \<Rightarrow> string outcome" where
  "rewriteUrl P config d originalUrl =
     (case apply_rules P Url (transformRules config) originalUrl of
        Throws \<Rightarrow> Throws
      | Returns rewrittenUrl \<Rightarrow>
          Returns (if shouldApplyDomainFronting originalUrl
                   then applyDomainFronting d rewrittenUrl
                   else rewrittenUrl))"

definition userAgents :: "string list" where
  "userAgents =
     [''Mozilla/5.0 (Windows NT 10.0; Win64; x64) AppleWebKit/537.36'',
      ''Mozilla/5.0 (Macintosh; Intel Mac OS X 10_15_7) AppleWebKit/537.36'',
      ''Mozilla/5.0 (X11; Linux x86_64) AppleWebKit/537.36'']"

definition generateRandomUserAgent :: "nat \<Rightarrow> string" where
  "generateRandomUserAgent d = userAgents ! random_index d (length userAgents)"

definition generateRandomIP :: "nat \<Rightarrow> nat \<Rightarrow> string" where
  "generateRandomIP a b =
     ''192.168.'' @ String_nat (random_index a 256) @ ''.'' @ String_nat (random_index b 256)"

text \<open>The three draws are those of the user agent and of the two address bytes.\<close>

definition sanitizeHeaders :: "nat \<Rightarrow> nat \<Rightarrow> nat \<Rightarrow> header_record \<Rightarrow> header_record" where
  "sanitizeHeaders d a b headers =
     (headers(''cookie'' := None, ''referer'' := None, ''origin'' := None))
       (''user-agent'' \<mapsto> generateRandomUserAgent d,
        ''x-forwarded-for'' \<mapsto> generateRandomIP a b,
        ''x-proxy-engine'' \<mapsto> ''edgeflow-scramjet'')"

definition transformContent :: "platform \<Rightarrow> ProxyConfig \<Rightarrow> string \<Rightarrow> string \<Rightarrow> string outcome" where
  "transformContent P config content contentType =
     (if transformRules config = [] then Returns content
      else apply_rules P Content (transformRules config) content)"

section \<open>The POST handler\<close>

text \<open>
  The JSON body of the request, as the handler destructures it: a field is \<open>None\<close> when
  the object does not have it (the documented shape: strings and a header object).
\<close>

record request_body =
  req_url :: "string option"
  req_method :: "string option"
  req_headers :: "header_record option"
  req_body :: "string option"

text \<open>
  The origin's response. \<open>or_body\<close> is \<open>None\<close> when \<^verbatim>\<open>response.body\<close> is null;
  otherwise it is what \<^verbatim>\<open>await response.arrayBuffer()\<close> gives: the bytes, or \<open>Throws\<close>
  when the connection breaks or the 30 second signal fires while the body is read.
\<close>

record origin_response =
  or_status :: nat
  or_statusText :: string
  or_headers :: Headers
  or_body :: "string outcome option"

record proxy_result =
  content :: string
  contentType :: string
  status :: nat
  statusText :: string
  headers :: header_record
  cacheable :: bool

text \<open>
  A value interpolated into the \<^verbatim>\<open>sql\<close> tagged template: a string, a number, or the JSON
  text of a header record (\<^verbatim>\<open>JSON.stringify(responseHeaders)\<close>).
\<close>

datatype sql_value = SqlText string | SqlNumber int | SqlJson header_record

text \<open>
  \<^verbatim>\<open>NextResponse.json({error: m}, {status: s})\<close> is \<open>JsonError s m\<close>; the success object,
  sent with status 200, is \<open>JsonOk\<close>.
\<close>

datatype http_response = JsonError nat string | JsonOk proxy_result

text \<open>
  What the handler does besides returning, in the order it does it: reading the request
  body, logging, the outbound fetch, buffering a response body of so many bytes, handing a
  text to the content transformer, and the statement sent to the database with its
  values.
\<close>

datatype event =
    RequestJson
  | ConsoleLog string
  | ConsoleError
  | Fetch proxy_request
  | ArrayBuffer nat
  | TransformContent string
  | SqlQuery string "sql_value list"

text \<open>
  Everything outside the handler that one call depends on: what the configuration store
  answers, what \<^verbatim>\<open>request.json()\<close> and the destructuring of its value give (\<open>Throws\<close>
  for a body that is not JSON or is null), the origin behind \<^verbatim>\<open>fetch\<close>, the clock, the
  random draws and whether the database is reachable and runs a statement that it could
  prepare and bind.
\<close>

record world =
  edge_config :: "config_data outcome"
  request_json :: "request_body outcome"
  fetch :: "proxy_request \<Rightarrow> origin_response outcome"
  Date_now :: int
  front_draw :: nat
  ua_draw :: nat
  ip_draw1 :: nat
  ip_draw2 :: nat
  sql_insert :: "string \<Rightarrow> sql_value list \<Rightarrow> bool"

definition isCacheableResponse :: "origin_response \<Rightarrow> bool" where
  "isCacheableResponse response =
     (let cacheControl = (case Headers_get (or_headers response) ''cache-control'' of
                            None \<Rightarrow> [] | Some v \<Rightarrow> v);
          contentType = (case Headers_get (or_headers response) ''content-type'' of
                           None \<Rightarrow> [] | Some v \<Rightarrow> v)
      in if 400 \<le> or_status response then False
         else if str_includes cacheControl ''no-cache'' \<or>
                 str_includes cacheControl ''no-store'' \<or>
                 str_includes contentType ''application/json'' then False
         else True)"

text \<open>The template literal \<^verbatim>\<open>`proxy:${url}:${Date.now()}`\<close>.\<close>

definition proxy_cache_key :: "string \<Rightarrow> int \<Rightarrow> string" where
  "proxy_cache_key url now = ''proxy:'' @ url @ '':'' @ String_int now"

text \<open>
  The \<^verbatim>\<open>sql\<close> tagged template of the database driver: the literal parts of the template
  are joined with the placeholders \<open>$1\<close>, \<open>$2\<close>, ... in place of the interpolations, and
  the interpolated values are sent beside the text.
\<close>

fun tagged_template :: "string list \<Rightarrow> nat \<Rightarrow> string" where
  "tagged_template [] i = []"
| "tagged_template [part] i = part"
| "tagged_template (part # parts) i =
     part @ CHR ''$'' # String_nat i @ tagged_template parts (Suc i)"

text \<open>
  The literal parts of the insert statement, with the line breaks and the indentation of
  the source. The last interpolation, \<^verbatim>\<open>${config.cacheTTL}\<close>, stands between the quotes
  of the string literal after \<^verbatim>\<open>INTERVAL\<close>.
\<close>

definition insert_parts :: "string list" where
  "insert_parts =
     [CHR 0x0A # ''        INSERT INTO proxy_cache (cache_key, content, content_type, status, status_text, headers, expires_at)''
        @ CHR 0x0A # ''        VALUES ('',
      '', '',
      '', '',
      '','' @ CHR 0x0A # ''                '',
      '', '',
      '', '',
      '','' @ CHR 0x0A # ''                NOW() + INTERVAL '' @ [CHR 0x27],
      '' seconds'' @ [CHR 0x27] @ '')'' @ CHR 0x0A # ''      '']"

definition insert_statement :: string where
  "insert_statement = tagged_template insert_parts 1"

text \<open>
  The database side. The parameters of a statement are the placeholders \<open>$n\<close> that stand
  outside quoted string literals (inside quotes \<open>$n\<close> is text), and a statement has as
  many parameters as the highest of them; it is bound only with exactly that many
  values. \<open>referenced_parameters quoted text\<close> reads the text from left to right,
  \<open>quoted\<close> telling whether a string literal is open.
\<close>

definition is_digit :: "char \<Rightarrow> bool" where
  "is_digit c = (c \<in> set ''0123456789'')"

definition decimal_value :: "string \<Rightarrow> nat" where
  "decimal_value ds = foldl (\<lambda>n c. 10 * n + (of_char c - 48)) 0 ds"

fun referenced_parameters :: "bool \<Rightarrow> string \<Rightarrow> nat list" where
  "referenced_parameters quoted [] = []"
| "referenced_parameters quoted (c # cs) =
     (if c = CHR 0x27 then referenced_parameters (\<not> quoted) cs
      else if \<not> quoted \<and> c = CHR ''$'' \<and> takeWhile is_digit cs \<noteq> []
      then decimal_value (takeWhile is_digit cs) # referenced_parameters quoted cs
      else referenced_parameters quoted cs)"

definition statement_parameters :: "string \<Rightarrow> nat" where
  "statement_parameters text = foldr max (referenced_parameters False text) 0"

definition sql_executes :: "world \<Rightarrow> string \<Rightarrow> sql_value list \<Rightarrow> bool" where
  "sql_executes w text vals =
     (statement_parameters text = length vals \<and> sql_insert w text vals)"

text \<open>The catch block of the handler.\<close>

definition failed :: "event list \<Rightarrow> http_response \<times> event list" where
  "failed evs = (JsonError 500 ''Proxy request failed'', evs @ [ConsoleError])"

definition skipped_headers :: "string list" where
  "skipped_headers = [''set-cookie'', ''connection'', ''transfer-encoding'']"

definition proxied_headers :: "Headers \<Rightarrow> header_record" where
  "proxied_headers h =
     (\<lambda>key. if toLowerCase key \<in> set skipped_headers then None else h key)
       (''x-proxied-by'' \<mapsto> ''edgeflow'', ''x-cache-status'' \<mapsto> ''MISS'')"

text \<open>
  The handler is one function in the source; it is cut here at its early returns. Last
  stage: the response headers, the cache insert (awaited, so that a rejected statement
  throws) and the success object.
\<close>

definition store_and_respond ::
  "ProxyConfig \<Rightarrow> world \<Rightarrow> string \<Rightarrow> origin_response \<Rightarrow> string \<Rightarrow> string \<Rightarrow> event list
     \<Rightarrow> http_response \<times> event list" where
  "store_and_respond config w url response ctype transformedContent evs =
     (let responseHeaders = proxied_headers (or_headers response);
          is_cacheable = isCacheableResponse response;
          result = \<lparr>content = transformedContent, contentType = ctype,
                    status = or_status response, statusText = or_statusText response,
                    headers = responseHeaders, cacheable = is_cacheable\<rparr>
      in if is_cacheable then
           (let vals = [SqlText (proxy_cache_key url (Date_now w)),
                        SqlText transformedContent, SqlText ctype,
                        SqlNumber (int (or_status response)),
                        SqlText (or_statusText response),
                        SqlJson responseHeaders,
                        SqlNumber (cacheTTL config)]
            in if sql_executes w insert_statement vals
               then (JsonOk result, evs @ [SqlQuery insert_statement vals])
               else failed (evs @ [SqlQuery insert_statement vals]))
         else (JsonOk result, evs))"

text \<open>The content transformation, which may throw.\<close>

definition transform_and_store ::
  "platform \<Rightarrow> ProxyConfig \<Rightarrow> world \<Rightarrow> string \<Rightarrow> origin_response \<Rightarrow> string \<Rightarrow> string
     \<Rightarrow> event list \<Rightarrow> http_response \<times> event list" where
  "transform_and_store P config w url response ctype text evs =
     (case transformContent P config text ctype of
        Throws \<Rightarrow> failed (evs @ [TransformContent text])
      | Returns transformedContent \<Rightarrow>
          store_and_respond config w url response ctype transformedContent
            (evs @ [TransformContent text]))"

text \<open>
  Reading the body: when there is one, \<^verbatim>\<open>await response.arrayBuffer()\<close> buffers all of it,
  and only then is its length compared with the limit.
\<close>

definition read_body ::
  "platform \<Rightarrow> ProxyConfig \<Rightarrow> world \<Rightarrow> string \<Rightarrow> origin_response \<Rightarrow> event list
     \<Rightarrow> http_response \<times> event list" where
  "read_body P config w url response evs =
     (let ctype = (case Headers_get (or_headers response) ''content-type'' of
                     None \<Rightarrow> ''text/plain''
                   | Some v \<Rightarrow> if v = [] then ''text/plain'' else v)
      in case or_body response of
           None \<Rightarrow> transform_and_store P config w url response ctype [] evs
         | Some Throws \<Rightarrow> failed evs
         | Some (Returns buffer) \<Rightarrow>
             if int (length buffer) < maxContentLength config
             then transform_and_store P config w url response ctype (utf8_decode P buffer)
                    (evs @ [ArrayBuffer (length buffer)])
             else (JsonError 413 ''Content too large'', evs @ [ArrayBuffer (length buffer)]))"

text \<open>Rewriting, sanitising and the outbound request.\<close>

definition forward ::
  "platform \<Rightarrow> ProxyConfig \<Rightarrow> world \<Rightarrow> string \<Rightarrow> string \<Rightarrow> header_record \<Rightarrow> string option
     \<Rightarrow> event list \<Rightarrow> http_response \<times> event list" where
  "forward P config w url method hdrs requestBody evs =
     (case rewriteUrl P config (front_draw w) url of
        Throws \<Rightarrow> failed evs
      | Returns rewrittenUrl \<Rightarrow>
          (let sanitizedHeaders = sanitizeHeaders (ua_draw w) (ip_draw1 w) (ip_draw2 w) hdrs;
               evs1 = evs @ [ConsoleLog (''Proxying request: '' @ method @ '' '' @ url
                                          @ '' -> '' @ rewrittenUrl)];
               proxyRequest = \<lparr>pr_url = rewrittenUrl, pr_method = method,
                               pr_headers = sanitizedHeaders, pr_body = requestBody\<rparr>
           in if \<not> new_Request P proxyRequest then failed evs1
              else (case fetch w proxyRequest of
                      Throws \<Rightarrow> failed (evs1 @ [Fetch proxyRequest])
                    | Returns response \<Rightarrow>
                        read_body P config w url response
                          (evs1 @ [Fetch proxyRequest]))))"

text \<open>Input validation and the domain policy.\<close>

definition validate ::
  "platform \<Rightarrow> ProxyConfig \<Rightarrow> world \<Rightarrow> request_body \<Rightarrow> event list
     \<Rightarrow> http_response \<times> event list" where
  "validate P config w body evs =
     (case req_url body of
        None \<Rightarrow> (JsonError 400 ''URL is required'', evs)
      | Some url \<Rightarrow>
          if url = [] then (JsonError 400 ''URL is required'', evs)
          else (case url_hostname P url of
                  None \<Rightarrow> (JsonError 400 ''Invalid URL format'', evs)
                | Some hostname \<Rightarrow>
                    if list_ex (\<lambda>domain. str_includes hostname domain) (blockedDomains config)
                    then (JsonError 403 ''Domain is blocked'', evs)
                    else if allowedDomains config \<noteq> [] \<and>
                            \<not> list_ex (\<lambda>domain. str_includes hostname domain)
                                (allowedDomains config)
                    then (JsonError 403 ''Domain is not allowed'', evs)
                    else forward P config w url
                           (case req_method body of None \<Rightarrow> ''GET'' | Some m \<Rightarrow> m)
                           (case req_headers body of None \<Rightarrow> Map.empty | Some h \<Rightarrow> h)
                           (req_body body) evs))"

definition POST :: "platform \<Rightarrow> world \<Rightarrow> http_response \<times> event list" where
  "POST P w =
     (case edge_config w of
        Throws \<Rightarrow> failed []
      | Returns configData \<Rightarrow>
          (let config = select_config configData
           in if \<not> enabled config then (JsonError 503 ''Proxy service is disabled'', [])
              else (case request_json w of
                      Throws \<Rightarrow> failed [RequestJson]
                    | Returns body \<Rightarrow> validate P config w body [RequestJson])))"

text \<open>The statements that a run of the handler sent to the database, with their values.\<close>

fun sent_queries :: "event list \<Rightarrow> (string \<times> sql_value list) list" where
  "sent_queries [] = []"
| "sent_queries (SqlQuery text vals # evs) = (text, vals) # sent_queries evs"
| "sent_queries (e # evs) = sent_queries evs"

section \<open>The service worker (\<^verbatim>\<open>src/public/sw.js\<close>)\<close>

text \<open>
  The intercepted request; \<open>rq_text\<close> is what \<^verbatim>\<open>await request.text()\<close> gives, \<open>rq_headers\<close>
  is \<^verbatim>\<open>Object.fromEntries(request.headers.entries())\<close>.
\<close>

record sw_request =
  rq_url :: string
  rq_method :: string
  rq_headers :: header_record
  rq_text :: "string outcome"

text \<open>
  A response as the service worker builds it; \<open>sr_blob_type\<close> is the type of the
  \<^verbatim>\<open>Blob\<close> body, \<open>None\<close> for a plain string body.
\<close>

record sw_response =
  sr_body :: string
  sr_blob_type :: "string option"
  sr_status :: nat
  sr_statusText :: string
  sr_headers :: header_record

text \<open>
  The reply of the edge function to the forwarding call: its HTTP status, and what
  \<^verbatim>\<open>response.json()\<close> gives (\<open>Throws\<close> when the body is not JSON).
\<close>

record edge_reply =
  er_status :: nat
  er_json :: "proxy_result outcome"

definition ok :: "edge_reply \<Rightarrow> bool" where
  "ok response = (200 \<le> er_status response \<and> er_status response \<le> 299)"

text \<open>
  The \<^verbatim>\<open>Response\<close> constructor of the Fetch standard, called here with a \<^verbatim>\<open>Blob\<close> body:
  it throws a RangeError for a status outside 200..599 and a TypeError for a body given
  together with a null-body status (101, 103, 204, 205, 304).
\<close>

definition null_body_status :: "nat \<Rightarrow> bool" where
  "null_body_status s = (s \<in> {101, 103, 204, 205, 304})"

definition new_Response :: "proxy_result \<Rightarrow> sw_response outcome" where
  "new_Response responseData =
     (if status responseData < 200 \<or> 599 < status responseData then Throws
      else if null_body_status (status responseData) then Throws
      else Returns \<lparr>sr_body = content responseData,
                     sr_blob_type = Some (contentType responseData),
                     sr_status = status responseData,
                     sr_statusText = statusText responseData,
                     sr_headers = headers responseData\<rparr>)"

text \<open>
  The client-side cache store, keyed by the URL of the request. The Cache API stores and
  matches GET requests only: \<^verbatim>\<open>cache.put\<close> rejects any other method (the rejection is not
  awaited by the worker) and \<^verbatim>\<open>caches.match\<close> answers undefined for it. The storage
  itself is taken to work: \<^verbatim>\<open>caches.open\<close> and \<^verbatim>\<open>caches.match\<close> do not reject.
\<close>

type_synonym client_cache = "string \<rightharpoonup> sw_response"

definition caches_match :: "client_cache \<Rightarrow> sw_request \<Rightarrow> sw_response option" where
  "caches_match cache request =
     (if rq_method request = ''GET'' then cache (rq_url request) else None)"

definition cache_put :: "client_cache \<Rightarrow> sw_request \<Rightarrow> sw_response \<Rightarrow> client_cache" where
  "cache_put cache request response =
     (if rq_method request = ''GET'' then cache(rq_url request \<mapsto> response) else cache)"

datatype sw_event = EdgeFetch request_body | CacheMatch | CachePut

definition unavailable :: sw_response where
  "unavailable =
     \<lparr>sr_body = ''Proxy temporarily unavailable'', sr_blob_type = None, sr_status = 503,
      sr_statusText = ''Service Unavailable'',
      sr_headers = [''Content-Type'' \<mapsto> ''text/plain'']\<rparr>"

text \<open>The catch block of \<^verbatim>\<open>handleProxyRequest\<close>.\<close>

definition fallback ::
  "client_cache \<Rightarrow> sw_request \<Rightarrow> sw_event list \<Rightarrow> sw_response \<times> client_cache \<times> sw_event list" where
  "fallback cache request evs =
     (case caches_match cache request of
        Some cachedResponse \<Rightarrow> (cachedResponse, cache, evs @ [CacheMatch])
      | None \<Rightarrow> (unavailable, cache, evs @ [CacheMatch]))"

text \<open>
  \<open>edge_fetch\<close> is \<^verbatim>\<open>fetch(proxyRequest)\<close>, as a function of the JSON body sent to
  \<^verbatim>\<open>/api/proxy\<close>; it throws on a network error.
\<close>

definition handleProxyRequest ::
  "(request_body \<Rightarrow> edge_reply outcome) \<Rightarrow> client_cache \<Rightarrow> sw_request
     \<Rightarrow> sw_response \<times> client_cache \<times> sw_event list" where
  "handleProxyRequest edge_fetch cache request =
     (case (if rq_method request \<noteq> ''GET''
            then (case rq_text request of Throws \<Rightarrow> Throws | Returns t \<Rightarrow> Returns (Some t))
            else Returns None) of
        Throws \<Rightarrow> fallback cache request []
      | Returns body \<Rightarrow>
          (let call = \<lparr>req_url = Some (rq_url request), req_method = Some (rq_method request),
                       req_headers = Some (rq_headers request), req_body = body\<rparr>
           in case edge_fetch call of
                Throws \<Rightarrow> fallback cache request [EdgeFetch call]
              | Returns response \<Rightarrow>
                  if \<not> ok response then fallback cache request [EdgeFetch call]
                  else (case er_json response of
                          Throws \<Rightarrow> fallback cache request [EdgeFetch call]
                        | Returns responseData \<Rightarrow>
                            (case new_Response responseData of
                               Throws \<Rightarrow> fallback cache request [EdgeFetch call]
                             | Returns proxiedResponse \<Rightarrow>
                                 if cacheable responseData
                                 then (proxiedResponse,
                                       cache_put cache request proxiedResponse,
                                       [EdgeFetch call, CachePut])
                                 else (proxiedResponse, cache, [EdgeFetch call])))))"

section \<open>Properties of the regular-expression engine, and a sample platform\<close>

text \<open>
  The one law of the engine that the fixed-point property needs: replacing with a pattern
  that does not match leaves the string as it is.
\<close>

definition regexp_lawful :: "platform \<Rightarrow> bool" where
  "regexp_lawful P =
     (\<forall>p r s. regexp_valid P p \<longrightarrow> \<not> regexp_test P p s \<longrightarrow> regexp_replace P p r s = s)"

text \<open>Some rule of kind \<open>k\<close> has a pattern that does not compile.\<close>

definition invalid_rule :: "platform \<Rightarrow> rule_type \<Rightarrow> ProxyConfig \<Rightarrow> bool" where
  "invalid_rule P k config =
     list_ex (\<lambda>rule. type rule = k \<and> \<not> regexp_valid P (pattern rule)) (transformRules config)"

text \<open>
  A small platform to run the handlers on concrete inputs. It agrees with ECMAScript on
  the inputs used below: patterns without metacharacters, which are searched literally
  and replaced from left to right without overlap; the pattern \<open>(\<close>, an unterminated
  group, which does not compile; URLs of the form \<open>http(s)://host/path\<close>; ASCII bodies.
  \<open>literal_replace p r k s\<close> skips the \<open>k\<close> characters left of the last match first.
\<close>

fun literal_replace :: "string \<Rightarrow> string \<Rightarrow> nat \<Rightarrow> string \<Rightarrow> string" where
  "literal_replace p r k [] = []"
| "literal_replace p r k (c # cs) =
     (if 0 < k then literal_replace p r (k - 1) cs
      else if prefix p (c # cs) then r @ literal_replace p r (length p - 1) cs
      else c # literal_replace p r 0 cs)"

definition sample_replace :: "string \<Rightarrow> string \<Rightarrow> string \<Rightarrow> string" where
  "sample_replace p r s =
     (if p = [] then r @ concat (map (\<lambda>c. c # r) s) else literal_replace p r 0 s)"

definition sample_hostname :: "string \<Rightarrow> string option" where
  "sample_hostname s =
     (let rest = (if prefix ''https://'' s then drop 8 s
                  else if prefix ''http://'' s then drop 7 s
                  else []);
          host = takeWhile (\<lambda>c. c \<noteq> CHR ''/'') rest
      in if host = [] then None else Some host)"

definition sample_platform :: platform where
  "sample_platform =
     \<lparr>regexp_valid = (\<lambda>p. p \<noteq> ''(''),
      regexp_replace = sample_replace,
      regexp_test = (\<lambda>p s. str_includes s p),
      url_hostname = sample_hostname,
      new_Request = (\<lambda>r. pr_body r = None \<or> pr_method r \<notin> {''GET'', ''HEAD''}),
      utf8_decode = (\<lambda>b. b)\<rparr>"

text \<open>
  Sample inputs: a request body with only a URL, a world built around a configuration, a
  target URL and the origin's answer (the database is up), an HTML page, the same page
  sent with \<open>no-store\<close>, an intercepted GET request, and the edge function's reply for an
  origin that answered 204 with \<open>no-store\<close>.
\<close>

definition sample_request :: "string \<Rightarrow> request_body" where
  "sample_request u =
     \<lparr>req_url = Some u, req_method = None, req_headers = None, req_body = None\<rparr>"

definition sample_world :: "ProxyConfig \<Rightarrow> string \<Rightarrow> origin_response outcome \<Rightarrow> world" where
  "sample_world config u origin =
     \<lparr>edge_config = Returns (ConfigObject config),
      request_json = Returns (sample_request u),
      fetch = (\<lambda>r. origin),
      Date_now = 1700000000000,
      front_draw = 0, ua_draw = 1, ip_draw1 = 10, ip_draw2 = 20,
      sql_insert = (\<lambda>text vals. True)\<rparr>"

definition html_page :: origin_response where
  "html_page =
     \<lparr>or_status = 200, or_statusText = ''OK'',
      or_headers = [''content-type'' \<mapsto> ''text/html''], or_body = Some (Returns ''hello'')\<rparr>"

definition no_store_page :: origin_response where
  "no_store_page =
     html_page\<lparr>or_headers := [''content-type'' \<mapsto> ''text/html'',
                                ''cache-control'' \<mapsto> ''no-store'']\<rparr>"

definition get_request :: "string \<Rightarrow> sw_request" where
  "get_request u =
     \<lparr>rq_url = u, rq_method = ''GET'', rq_headers = Map.empty, rq_text = Returns []\<rparr>"

definition no_content_reply :: edge_reply where
  "no_content_reply =
     \<lparr>er_status = 200,
      er_json = Returns \<lparr>content = [], contentType = ''text/plain'', status = 204,
                          statusText = ''No Content'',
                          headers = [''x-proxied-by'' \<mapsto> ''edgeflow'',
                                     ''cache-control'' \<mapsto> ''no-store''],
                          cacheable = False\<rparr>\<rparr>"

definition blocking_config :: ProxyConfig where
  "blocking_config =
     DEFAULT_CONFIG\<lparr>allowedDomains := [''blocked-site.com''],
                    blockedDomains := [''blocked-site.com'']\<rparr>"

definition disabled_config :: ProxyConfig where
  "disabled_config = blocking_config\<lparr>enabled := False\<rparr>"

definition bad_url_rule_config :: ProxyConfig where
  "bad_url_rule_config =
     DEFAULT_CONFIG\<lparr>transformRules :=
       [\<lparr>pattern = ''('', replacement = [], type = Url\<rparr>,
        \<lparr>pattern = ''foo'', replacement = ''bar'', type = Content\<rparr>]\<rparr>"

definition bad_content_rule_config :: ProxyConfig where
  "bad_content_rule_config =
     DEFAULT_CONFIG\<lparr>transformRules :=
       [\<lparr>pattern = ''foo'', replacement = ''bar'', type = Content\<rparr>,
        \<lparr>pattern = ''('', replacement = [], type = Content\<rparr>]\<rparr>"

definition small_cap_config :: ProxyConfig where
  "small_cap_config = DEFAULT_CONFIG\<lparr>maxContentLength := 3\<rparr>"

definition upgrade_config :: ProxyConfig where
  "upgrade_config =
     DEFAULT_CONFIG\<lparr>transformRules :=
       [\<lparr>pattern = ''http:'', replacement = ''https:'', type = Url\<rparr>]\<rparr>"

section \<open>Facts about the string functions\<close>

lemma digit_char_code: "of_char (digit_char n) = (48 + n mod 10 :: nat)"
proof -
  have "n mod 10 < 10" by simp
  then consider "n mod 10 = 0" | "n mod 10 = 1" | "n mod 10 = 2" | "n mod 10 = 3"
    | "n mod 10 = 4" | "n mod 10 = 5" | "n mod 10 = 6" | "n mod 10 = 7"
    | "n mod 10 = 8" | "n mod 10 = 9"
    by atomize_elim arith
  then show ?thesis
    by cases (simp_all add: digit_char_def)
qed

lemma digit_char_inj: "digit_char a = digit_char b \<Longrightarrow> a mod 10 = b mod 10"
proof -
  assume "digit_char a = digit_char b"
  then have "(of_char (digit_char a) :: nat) = of_char (digit_char b)" by simp
  then show ?thesis by (simp add: digit_char_code)
qed

lemma digit_char_not_minus: "digit_char n \<noteq> CHR ''-''"
proof
  assume "digit_char n = CHR ''-''"
  then have "(of_char (digit_char n) :: nat) = of_char CHR ''-''" by simp
  then show False by (simp add: digit_char_code)
qed

lemma String_nat_small: "n < 10 \<Longrightarrow> String_nat n = [digit_char n]"
  by (simp add: String_nat.simps [of n])

lemma String_nat_big:
  "\<not> n < 10 \<Longrightarrow> String_nat n = String_nat (n div 10) @ [digit_char (n mod 10)]"
  by (simp add: String_nat.simps [of n])

lemma String_nat_not_Nil: "String_nat n \<noteq> []"
  by (cases "n < 10") (simp_all add: String_nat.simps [of n])

text \<open>Two numbers with the same decimal rendering are equal: by induction on the digits.\<close>

lemma String_nat_inj: "String_nat n = String_nat m \<Longrightarrow> n = m"
proof (induction n arbitrary: m rule: String_nat.induct)
  case (1 n)
  show ?case
  proof (cases "n < 10")
    case small_n: True
    show ?thesis
    proof (cases "m < 10")
      case True
      with small_n "1.prems" have "digit_char n = digit_char m"
        by (simp add: String_nat_small)
      then have "n mod 10 = m mod 10" by (rule digit_char_inj)
      with small_n True show ?thesis by simp
    next
      case False
      from "1.prems" have "[digit_char n] = String_nat (m div 10) @ [digit_char (m mod 10)]"
        by (simp add: String_nat_small [OF small_n] String_nat_big [OF False])
      then have "String_nat (m div 10) = []" by simp
      then show ?thesis by (simp add: String_nat_not_Nil)
    qed
  next
    case big_n: False
    show ?thesis
    proof (cases "m < 10")
      case True
      from "1.prems" have "String_nat (n div 10) @ [digit_char (n mod 10)] = [digit_char m]"
        by (simp add: String_nat_small [OF True] String_nat_big [OF big_n])
      then have "String_nat (n div 10) = []" by simp
      then show ?thesis by (simp add: String_nat_not_Nil)
    next
      case False
      from "1.prems" have
        "String_nat (n div 10) @ [digit_char (n mod 10)] =
         String_nat (m div 10) @ [digit_char (m mod 10)]"
        by (simp add: String_nat_big [OF False] String_nat_big [OF big_n])
      then have eq: "String_nat (n div 10) = String_nat (m div 10)"
        and d: "digit_char (n mod 10) = digit_char (m mod 10)"
        by simp_all
      from "1.IH" [OF big_n eq] have "n div 10 = m div 10" .
      moreover from digit_char_inj [OF d] have "n mod 10 = m mod 10" by simp
      ultimately show ?thesis by (metis div_mult_mod_eq)
    qed
  qed
qed

lemma String_nat_hd_not_minus: "hd (String_nat n) \<noteq> CHR ''-''"
proof (induction n rule: String_nat.induct)
  case (1 n)
  show ?case
  proof (cases "n < 10")
    case True
    show ?thesis
      unfolding String_nat_small [OF True] using digit_char_not_minus by simp
  next
    case False
    have "hd (String_nat (n div 10)) \<noteq> CHR ''-''"
      using "1.IH" False by blast
    then show ?thesis
      unfolding String_nat_big [OF False] using String_nat_not_Nil [of "n div 10"] by simp
  qed
qed

lemma String_int_inj: "String_int i = String_int j \<Longrightarrow> i = j"
proof -
  assume eq: "String_int i = String_int j"
  have neg_pos: "CHR ''-'' # String_nat a \<noteq> String_nat b" for a b
    using String_nat_hd_not_minus [of b] by (metis list.sel(1))
  show ?thesis
  proof (cases "i < 0"; cases "j < 0")
    assume "i < 0" "j < 0"
    with eq have "String_nat (nat (- i)) = String_nat (nat (- j))"
      by (simp add: String_int_def)
    then have "nat (- i) = nat (- j)" by (rule String_nat_inj)
    with \<open>i < 0\<close> \<open>j < 0\<close> show ?thesis by simp
  next
    assume "i < 0" "\<not> j < 0"
    with eq neg_pos show ?thesis by (simp add: String_int_def)
  next
    assume "\<not> i < 0" "j < 0"
    with eq neg_pos [of "nat (- j)" "nat i"] show ?thesis by (simp add: String_int_def)
  next
    assume "\<not> i < 0" "\<not> j < 0"
    with eq have "String_nat (nat i) = String_nat (nat j)"
      by (simp add: String_int_def)
    then have "nat i = nat j" by (rule String_nat_inj)
    with \<open>\<not> i < 0\<close> \<open>\<not> j < 0\<close> show ?thesis by simp
  qed
qed

lemma proxy_cache_key_inj: "proxy_cache_key url s = proxy_cache_key url t \<longleftrightarrow> s = t"
  by (auto simp: proxy_cache_key_def dest: String_int_inj)

lemma str_includes_Nil: "str_includes s []"
  by (cases s) simp_all

section \<open>Facts about the rule engine\<close>

lemma apply_rules_Throws_iff:
  "apply_rules P k rules s = Throws \<longleftrightarrow>
     list_ex (\<lambda>rule. type rule = k \<and> \<not> regexp_valid P (pattern rule)) rules"
  by (induction rules arbitrary: s) auto

lemma apply_rules_no_match:
  assumes "regexp_lawful P"
    and "\<not> list_ex (\<lambda>rule. type rule = k \<and> \<not> regexp_valid P (pattern rule)) rules"
    and "\<forall>rule \<in> set rules. type rule = k \<longrightarrow> \<not> regexp_test P (pattern rule) s"
  shows "apply_rules P k rules s = Returns s"
  using assms(2,3)
proof (induction rules)
  case Nil
  show ?case by simp
next
  case (Cons rule rules)
  show ?case
  proof (cases "type rule = k")
    case True
    with Cons.prems have valid: "regexp_valid P (pattern rule)"
      and no_match: "\<not> regexp_test P (pattern rule) s"
      by simp_all
    from assms(1) valid no_match
    have "regexp_replace P (pattern rule) (replacement rule) s = s"
      unfolding regexp_lawful_def by blast
    with True valid Cons show ?thesis by simp
  next
    case False
    with Cons show ?thesis by simp
  qed
qed

lemma literal_replace_no_match:
  "\<not> str_includes s p \<Longrightarrow> literal_replace p r 0 s = s"
  by (induction s) auto

lemma sample_platform_lawful: "regexp_lawful sample_platform"
  unfolding regexp_lawful_def
  by (auto simp: sample_platform_def sample_replace_def literal_replace_no_match str_includes_Nil)

lemma rewriteUrl_Throws_iff:
  "rewriteUrl P config d url = Throws \<longleftrightarrow> invalid_rule P Url config"
proof (cases "apply_rules P Url (transformRules config) url")
  case Throws
  then show ?thesis
    using apply_rules_Throws_iff [of P Url "transformRules config" url]
    by (simp add: rewriteUrl_def invalid_rule_def)
next
  case (Returns rewrittenUrl)
  then show ?thesis
    using apply_rules_Throws_iff [of P Url "transformRules config" url]
    by (simp add: rewriteUrl_def invalid_rule_def)
qed

lemma transformContent_Throws:
  "invalid_rule P Content config \<Longrightarrow> transformContent P config text ctype = Throws"
  by (auto simp: transformContent_def invalid_rule_def apply_rules_Throws_iff)

text \<open>With the exact lower-case names, \<^verbatim>\<open>sanitizeHeaders\<close> does what its comments say.\<close>

lemma sanitizeHeaders_exact_names:
  "sanitizeHeaders d a b hdrs ''cookie'' = None
   \<and> sanitizeHeaders d a b hdrs ''referer'' = None
   \<and> sanitizeHeaders d a b hdrs ''origin'' = None
   \<and> (\<exists>ua \<in> set userAgents. sanitizeHeaders d a b hdrs ''user-agent'' = Some ua)
   \<and> sanitizeHeaders d a b hdrs ''x-forwarded-for'' = Some (generateRandomIP a b)
   \<and> sanitizeHeaders d a b hdrs ''x-proxy-engine'' = Some ''edgeflow-scramjet''
   \<and> (name \<notin> {''cookie'', ''referer'', ''origin'', ''user-agent'', ''x-forwarded-for'',
                ''x-proxy-engine''} \<longrightarrow> sanitizeHeaders d a b hdrs name = hdrs name)"
proof -
  have "generateRandomUserAgent d \<in> set userAgents"
    unfolding generateRandomUserAgent_def random_index_def
    by (rule nth_mem) (simp add: userAgents_def)
  then show ?thesis by (simp add: sanitizeHeaders_def)
qed

section \<open>Facts about the stages of the handler\<close>

text \<open>
  The insert statement has six parameters: \<open>$7\<close> stands inside the string literal. With
  its seven values it is never bound, whatever the database is.
\<close>

lemma insert_statement_parameters: "statement_parameters insert_statement = 6"
  by (simp add: statement_parameters_def insert_statement_def insert_parts_def
      String_nat.simps digit_char_def is_digit_def decimal_value_def)

lemma insert_statement_text:
  "str_includes insert_statement (''INTERVAL '' @ [CHR 0x27] @ ''$7 seconds'' @ [CHR 0x27])"
  by (simp add: insert_statement_def insert_parts_def String_nat.simps digit_char_def)

lemma insert_never_executes:
  "length vals = 7 \<Longrightarrow> \<not> sql_executes w insert_statement vals"
  by (simp add: sql_executes_def insert_statement_parameters)

text \<open>Each stage keeps the events it was given and adds only its own.\<close>

lemma store_and_respond_keeps:
  "e \<in> set evs \<Longrightarrow> e \<in> set (snd (store_and_respond config w url response ctype text evs))"
  by (auto simp: store_and_respond_def Let_def failed_def)

lemma store_and_respond_events:
  "e \<in> set (snd (store_and_respond config w url response ctype text evs)) \<Longrightarrow>
     e \<in> set evs \<or> e = ConsoleError \<or>
     (\<exists>text vals. e = SqlQuery text vals)"
  by (auto simp: store_and_respond_def Let_def failed_def split: if_splits)

lemma store_and_respond_not_413:
  "fst (store_and_respond config w url response ctype text evs)
     \<noteq> JsonError 413 ''Content too large''"
  by (auto simp: store_and_respond_def Let_def failed_def)

text \<open>A cacheable response ends in the catch block; a success is never marked cacheable.\<close>

lemma store_and_respond_rejected:
  "isCacheableResponse response \<Longrightarrow>
     store_and_respond config w url response ctype text evs
       = (JsonError 500 ''Proxy request failed'',
          evs @ [SqlQuery insert_statement
                   [SqlText (proxy_cache_key url (Date_now w)), SqlText text, SqlText ctype,
                    SqlNumber (int (or_status response)), SqlText (or_statusText response),
                    SqlJson (proxied_headers (or_headers response)),
                    SqlNumber (cacheTTL config)],
                 ConsoleError])"
  by (simp add: store_and_respond_def Let_def failed_def insert_never_executes)

lemma store_and_respond_cacheable:
  "fst (store_and_respond config w url response ctype text evs) = JsonOk result
     \<Longrightarrow> \<not> cacheable result"
  by (cases "isCacheableResponse response")
     (auto simp: store_and_respond_rejected, auto simp: store_and_respond_def Let_def)

lemma transform_and_store_keeps:
  "e \<in> set evs \<or> e = TransformContent text \<Longrightarrow>
     e \<in> set (snd (transform_and_store P config w url response ctype text evs))"
  by (cases "transformContent P config text ctype")
     (auto simp: transform_and_store_def failed_def intro: store_and_respond_keeps)

lemma transform_and_store_events:
  "e \<in> set (snd (transform_and_store P config w url response ctype text evs)) \<Longrightarrow>
     e \<in> set evs \<or> e = ConsoleError \<or> e = TransformContent text \<or>
     (\<exists>text vals. e = SqlQuery text vals)"
  by (cases "transformContent P config text ctype")
     (auto simp: transform_and_store_def failed_def dest: store_and_respond_events)

lemma transform_and_store_not_413:
  "fst (transform_and_store P config w url response ctype text evs)
     \<noteq> JsonError 413 ''Content too large''"
  by (cases "transformContent P config text ctype")
     (simp_all add: transform_and_store_def failed_def store_and_respond_not_413)

lemma transform_and_store_cacheable:
  "fst (transform_and_store P config w url response ctype text evs) = JsonOk result
     \<Longrightarrow> \<not> cacheable result"
  by (cases "transformContent P config text ctype")
     (auto simp: transform_and_store_def failed_def dest: store_and_respond_cacheable)

lemma read_body_events:
  "e \<in> set (snd (read_body P config w url response evs)) \<Longrightarrow>
     e \<in> set evs \<or> e = ConsoleError \<or> e \<in> range ArrayBuffer \<or> e \<in> range TransformContent \<or>
     (\<exists>text vals. e = SqlQuery text vals)"
  by (cases "or_body response")
     (auto simp: read_body_def Let_def failed_def dest!: transform_and_store_events
      split: if_splits outcome.splits)

lemma read_body_cacheable:
  "fst (read_body P config w url response evs) = JsonOk result
     \<Longrightarrow> \<not> cacheable result"
  by (cases "or_body response")
     (auto simp: read_body_def Let_def failed_def dest: transform_and_store_cacheable
      split: if_splits outcome.splits)

lemma forward_events:
  "e \<in> set (snd (forward P config w url method hdrs requestBody evs)) \<Longrightarrow>
     e \<in> set evs \<or> e = ConsoleError \<or> e \<in> range ConsoleLog \<or> e \<in> range Fetch \<or>
     e \<in> range ArrayBuffer \<or> e \<in> range TransformContent \<or>
     (\<exists>text vals. e = SqlQuery text vals)"
  by (auto simp: forward_def Let_def failed_def dest!: read_body_events
      split: outcome.splits if_splits)

lemma forward_cacheable:
  "fst (forward P config w url method hdrs requestBody evs) = JsonOk result
     \<Longrightarrow> \<not> cacheable result"
  by (auto simp: forward_def Let_def failed_def dest: read_body_cacheable
      split: outcome.splits if_splits)

lemma forward_fetched:
  assumes "Fetch request \<in> set (snd (forward P config w url method hdrs requestBody evs))"
    and "Fetch request \<notin> set evs"
    and "fetch w request = Returns response"
  shows "\<exists>line. forward P config w url method hdrs requestBody evs
           = read_body P config w url response (evs @ [ConsoleLog line, Fetch request])"
  using assms
  by (auto simp: forward_def Let_def failed_def dest!: read_body_events
      split: outcome.splits if_splits)

lemma validate_events:
  "e \<in> set (snd (validate P config w body evs)) \<Longrightarrow>
     e \<in> set evs \<or>
     (\<exists>url. req_url body = Some url \<and>
        e \<in> set (snd (forward P config w url
                (case req_method body of None \<Rightarrow> ''GET'' | Some m \<Rightarrow> m)
                (case req_headers body of None \<Rightarrow> Map.empty | Some h \<Rightarrow> h)
                (req_body body) evs))
        \<and> validate P config w body evs
            = forward P config w url
                (case req_method body of None \<Rightarrow> ''GET'' | Some m \<Rightarrow> m)
                (case req_headers body of None \<Rightarrow> Map.empty | Some h \<Rightarrow> h)
                (req_body body) evs)"
  by (cases "req_url body"; cases "url_hostname P (the (req_url body))")
     (auto simp: validate_def Let_def split: if_splits)

lemma validate_ok:
  "fst (validate P config w body evs) = JsonOk result \<Longrightarrow>
     \<exists>url. req_url body = Some url
        \<and> validate P config w body evs
            = forward P config w url
                (case req_method body of None \<Rightarrow> ''GET'' | Some m \<Rightarrow> m)
                (case req_headers body of None \<Rightarrow> Map.empty | Some h \<Rightarrow> h)
                (req_body body) evs"
  by (cases "req_url body"; cases "url_hostname P (the (req_url body))")
     (auto simp: validate_def Let_def split: if_splits)

lemma POST_events:
  assumes "e \<in> set (snd (POST P w))" and "e \<noteq> RequestJson" and "e \<noteq> ConsoleError"
  shows "\<exists>configData body url.
           edge_config w = Returns configData \<and> request_json w = Returns body
           \<and> req_url body = Some url
           \<and> POST P w = forward P (select_config configData) w url
                (case req_method body of None \<Rightarrow> ''GET'' | Some m \<Rightarrow> m)
                (case req_headers body of None \<Rightarrow> Map.empty | Some h \<Rightarrow> h)
                (req_body body) [RequestJson]"
  using assms
  by (auto simp: POST_def Let_def failed_def split: outcome.splits if_splits
      dest!: validate_events)

lemma POST_ok:
  assumes "fst (POST P w) = JsonOk result"
  shows "\<exists>configData body url.
           edge_config w = Returns configData \<and> request_json w = Returns body
           \<and> req_url body = Some url
           \<and> POST P w = forward P (select_config configData) w url
                (case req_method body of None \<Rightarrow> ''GET'' | Some m \<Rightarrow> m)
                (case req_headers body of None \<Rightarrow> Map.empty | Some h \<Rightarrow> h)
                (req_body body) [RequestJson]"
  using assms
  by (auto simp: POST_def Let_def failed_def split: outcome.splits if_splits
      dest!: validate_ok)

lemma POST_never_cacheable:
  assumes "fst (POST P w) = JsonOk result"
  shows "\<not> cacheable result"
proof -
  from POST_ok [OF assms]
  obtain c b u m h rb where
    post: "POST P w = forward P (select_config c) w u m h rb [RequestJson]"
    by blast
  from assms show ?thesis
    unfolding post by (rule forward_cacheable)
qed

lemma POST_fetched:
  assumes "Fetch request \<in> set (snd (POST P w))"
    and "edge_config w = Returns configData"
    and "fetch w request = Returns response"
  shows "\<exists>url line. POST P w
           = read_body P (select_config configData) w url response
               [RequestJson, ConsoleLog line, Fetch request]"
proof -
  from POST_events [OF assms(1)]
  obtain configData' body url m h b where cfg: "edge_config w = Returns configData'"
    and post: "POST P w = forward P (select_config configData') w url m h b [RequestJson]"
    by blast
  from cfg assms(2) have same: "configData' = configData" by simp
  from assms(1) have "Fetch request
      \<in> set (snd (forward P (select_config configData) w url m h b [RequestJson]))"
    unfolding post same .
  from forward_fetched [OF this _ assms(3)]
  show ?thesis unfolding post same by fastforce
qed

text \<open>Nothing after the configuration is loaded looks at the configuration store again.\<close>

lemma store_and_respond_edge_config:
  "store_and_respond config (w\<lparr>edge_config := c\<rparr>) url response ctype text evs =
   store_and_respond config w url response ctype text evs"
  by (simp add: store_and_respond_def sql_executes_def Let_def)

lemma transform_and_store_edge_config:
  "transform_and_store P config (w\<lparr>edge_config := c\<rparr>) url response ctype text evs =
   transform_and_store P config w url response ctype text evs"
  by (simp add: transform_and_store_def store_and_respond_edge_config
      cong: outcome.case_cong)

lemma read_body_edge_config:
  "read_body P config (w\<lparr>edge_config := c\<rparr>) url response evs =
   read_body P config w url response evs"
  by (simp add: read_body_def transform_and_store_edge_config Let_def
      cong: if_cong option.case_cong outcome.case_cong)

lemma forward_edge_config:
  "forward P config (w\<lparr>edge_config := c\<rparr>) url method hdrs requestBody evs =
   forward P config w url method hdrs requestBody evs"
  by (simp add: forward_def read_body_edge_config Let_def
      cong: if_cong outcome.case_cong option.case_cong)

lemma validate_edge_config:
  "validate P config (w\<lparr>edge_config := c\<rparr>) body evs = validate P config w body evs"
  by (simp add: validate_def forward_edge_config Let_def
      cong: if_cong outcome.case_cong option.case_cong)

text \<open>A request that passes validation and the domain policy is forwarded.\<close>

lemma POST_reaches_forward:
  assumes "edge_config w = Returns configData"
    and "enabled (select_config configData)"
    and "request_json w = Returns body"
    and "req_url body = Some url"
    and "url \<noteq> []"
    and "url_hostname P url = Some hostname"
    and "\<not> list_ex (\<lambda>domain. str_includes hostname domain)
             (blockedDomains (select_config configData))"
    and "allowedDomains (select_config configData) = []
         \<or> list_ex (\<lambda>domain. str_includes hostname domain)
              (allowedDomains (select_config configData))"
  shows "POST P w =
           forward P (select_config configData) w url
             (case req_method body of None \<Rightarrow> ''GET'' | Some m \<Rightarrow> m)
             (case req_headers body of None \<Rightarrow> Map.empty | Some h \<Rightarrow> h)
             (req_body body) [RequestJson]"
  using assms by (auto simp: POST_def validate_def Let_def)

text \<open>With an invalid content rule a forwarded request never succeeds.\<close>

lemma read_body_invalid_rule:
  assumes "invalid_rule P Content config"
  shows "(\<exists>evs'. read_body P config w url response evs = failed evs')
       \<or> (\<exists>evs'. read_body P config w url response evs
                  = (JsonError 413 ''Content too large'', evs'))"
  using transformContent_Throws [OF assms]
  by (cases "or_body response")
     (auto simp: read_body_def transform_and_store_def Let_def split: outcome.splits)

lemma forward_invalid_rule:
  assumes "invalid_rule P Content config"
  shows "(\<exists>evs'. forward P config w url method hdrs requestBody evs = failed evs')
       \<or> (\<exists>evs'. forward P config w url method hdrs requestBody evs
                  = (JsonError 413 ''Content too large'', evs'))"
proof (cases "rewriteUrl P config (front_draw w) url")
  case Throws
  then show ?thesis by (auto simp: forward_def)
next
  case (Returns rewrittenUrl)
  show ?thesis
    using read_body_invalid_rule [OF assms, of w url]
    by (simp add: forward_def Returns Let_def split: outcome.splits) blast
qed

section \<open>The disabled service\<close>

text \<open>
  C10. When the loaded configuration has \<open>enabled = false\<close>, the handler answers 503
  ``Proxy service is disabled'' and does nothing else: the request body is not read (the
  event list is empty), so whatever the body holds (nothing parsable, no URL, a malformed
  URL, a blocked domain) the answer is the same.
\<close>

theorem POST_disabled:
  assumes "edge_config w = Returns configData"
    and "\<not> enabled (select_config configData)"
  shows "POST P w = (JsonError 503 ''Proxy service is disabled'', [])"
  using assms by (simp add: POST_def)

theorem POST_disabled_witness:
  "edge_config ((sample_world disabled_config ''https://blocked-site.com/x'' Throws)
                  \<lparr>request_json := Throws\<rparr>)
     = Returns (ConfigObject disabled_config)
   \<and> \<not> enabled (select_config (ConfigObject disabled_config))
   \<and> POST sample_platform
         ((sample_world disabled_config ''https://blocked-site.com/x'' Throws)
            \<lparr>request_json := Throws\<rparr>)
       = (JsonError 503 ''Proxy service is disabled'', [])"
  using POST_disabled [of "(sample_world disabled_config ''https://blocked-site.com/x'' Throws)
                             \<lparr>request_json := Throws\<rparr>"
      "ConfigObject disabled_config" sample_platform]
  by (simp add: sample_world_def select_config_def disabled_config_def blocking_config_def
      DEFAULT_CONFIG_def)

section \<open>The domain policy\<close>

text \<open>
  C1, as the spec states it, for every configuration: false for a configuration with
  \<open>enabled = false\<close>, where a request for a blocked host is answered 503 and not 403.
\<close>

theorem POST_blocked_domain_counterexample:
  "url_hostname sample_platform ''https://blocked-site.com/x'' = Some ''blocked-site.com''
   \<and> blockedDomains disabled_config = [''blocked-site.com'']
   \<and> str_includes ''blocked-site.com'' ''blocked-site.com''
   \<and> POST sample_platform
         (sample_world disabled_config ''https://blocked-site.com/x'' (Returns html_page))
       = (JsonError 503 ''Proxy service is disabled'', [])"
  by (simp add: POST_def sample_world_def select_config_def disabled_config_def
      blocking_config_def DEFAULT_CONFIG_def sample_platform_def sample_hostname_def)

text \<open>
  C1, amended. For every configuration with \<open>enabled = true\<close> and every request whose
  body parses and whose URL is valid with a hostname that contains an entry of
  \<open>blockedDomains\<close>, the handler answers 403 ``Domain is blocked'', whatever
  \<open>allowedDomains\<close> holds, and the only thing it has done is to read the request body:
  no fetch was made.
\<close>

theorem POST_blocked_domain:
  assumes "edge_config w = Returns configData"
    and "enabled (select_config configData)"
    and "request_json w = Returns body"
    and "req_url body = Some url"
    and "url \<noteq> []"
    and "url_hostname P url = Some hostname"
    and "domain \<in> set (blockedDomains (select_config configData))"
    and "str_includes hostname domain"
  shows "POST P w = (JsonError 403 ''Domain is blocked'', [RequestJson])"
proof -
  from assms(7,8)
  have "list_ex (\<lambda>domain. str_includes hostname domain)
          (blockedDomains (select_config configData))"
    unfolding list_ex_iff by blast
  with assms(1-6) show ?thesis
    by (simp add: POST_def validate_def Let_def)
qed

theorem POST_blocked_domain_witness:
  "edge_config (sample_world blocking_config ''https://blocked-site.com/x'' (Returns html_page))
     = Returns (ConfigObject blocking_config)
   \<and> enabled (select_config (ConfigObject blocking_config))
   \<and> request_json (sample_world blocking_config ''https://blocked-site.com/x'' (Returns html_page))
     = Returns (sample_request ''https://blocked-site.com/x'')
   \<and> req_url (sample_request ''https://blocked-site.com/x'') = Some ''https://blocked-site.com/x''
   \<and> url_hostname sample_platform ''https://blocked-site.com/x'' = Some ''blocked-site.com''
   \<and> ''blocked-site.com'' \<in> set (blockedDomains (select_config (ConfigObject blocking_config)))
   \<and> ''blocked-site.com'' \<in> set (allowedDomains (select_config (ConfigObject blocking_config)))
   \<and> str_includes ''blocked-site.com'' ''blocked-site.com''
   \<and> POST sample_platform
         (sample_world blocking_config ''https://blocked-site.com/x'' (Returns html_page))
       = (JsonError 403 ''Domain is blocked'', [RequestJson])"
  using POST_blocked_domain
    [of "sample_world blocking_config ''https://blocked-site.com/x'' (Returns html_page)"
        "ConfigObject blocking_config" "sample_request ''https://blocked-site.com/x''"
        "''https://blocked-site.com/x''" sample_platform "''blocked-site.com''"
        "''blocked-site.com''"]
  by (simp add: sample_world_def sample_request_def select_config_def blocking_config_def
      DEFAULT_CONFIG_def sample_platform_def sample_hostname_def)

section \<open>Invalid patterns\<close>

text \<open>
  C2, as the spec states it: false. With a URL rule whose pattern does not compile,
  \<^verbatim>\<open>rewriteUrl\<close> throws; the rule is not skipped, the rules after it are not applied, and
  the request for an allowed host ends with status 500 before any fetch.
\<close>

theorem invalid_pattern_counterexample:
  "\<not> regexp_valid sample_platform ''(''
   \<and> transformRules bad_url_rule_config
       = [\<lparr>pattern = ''('', replacement = [], type = Url\<rparr>,
          \<lparr>pattern = ''foo'', replacement = ''bar'', type = Content\<rparr>]
   \<and> rewriteUrl sample_platform bad_url_rule_config 0 ''https://example.com/'' = Throws
   \<and> POST sample_platform
         (sample_world bad_url_rule_config ''https://example.com/'' (Returns html_page))
       = (JsonError 500 ''Proxy request failed'', [RequestJson, ConsoleError])"
  by (simp add: POST_def validate_def forward_def failed_def rewriteUrl_def sample_world_def
      sample_request_def select_config_def bad_url_rule_config_def DEFAULT_CONFIG_def
      sample_platform_def sample_hostname_def)

text \<open>
  C2, amended. For a request that passes validation and the domain policy under an
  enabled configuration: if a rule of kind url has an invalid pattern, \<^verbatim>\<open>rewriteUrl\<close>
  throws and the handler aborts the whole request with status 500 ``Proxy request
  failed'', having logged the error with \<^verbatim>\<open>console.error\<close> and made no fetch; if a rule
  of kind content has an invalid pattern, \<^verbatim>\<open>transformContent\<close> throws on every input and
  the request never succeeds: it ends with that same logged 500, or with 413.
\<close>

theorem invalid_pattern_aborts_request:
  assumes "edge_config w = Returns configData"
    and "enabled (select_config configData)"
    and "request_json w = Returns body"
    and "req_url body = Some url"
    and "url \<noteq> []"
    and "url_hostname P url = Some hostname"
    and "\<not> list_ex (\<lambda>domain. str_includes hostname domain)
             (blockedDomains (select_config configData))"
    and "allowedDomains (select_config configData) = []
         \<or> list_ex (\<lambda>domain. str_includes hostname domain)
              (allowedDomains (select_config configData))"
  shows "(invalid_rule P Url (select_config configData) \<longrightarrow>
            rewriteUrl P (select_config configData) (front_draw w) url = Throws
            \<and> POST P w = (JsonError 500 ''Proxy request failed'', [RequestJson, ConsoleError]))
       \<and> (invalid_rule P Content (select_config configData) \<longrightarrow>
            (\<forall>text ctype. transformContent P (select_config configData) text ctype = Throws)
            \<and> ((\<exists>evs. POST P w = (JsonError 500 ''Proxy request failed'', evs @ [ConsoleError]))
               \<or> (\<exists>evs. POST P w = (JsonError 413 ''Content too large'', evs))))"
proof (intro conjI impI)
  assume bad: "invalid_rule P Url (select_config configData)"
  then show "rewriteUrl P (select_config configData) (front_draw w) url = Throws"
    by (simp add: rewriteUrl_Throws_iff)
  then show "POST P w = (JsonError 500 ''Proxy request failed'', [RequestJson, ConsoleError])"
    unfolding POST_reaches_forward [OF assms] by (simp add: forward_def failed_def)
next
  assume bad: "invalid_rule P Content (select_config configData)"
  then show "\<forall>text ctype. transformContent P (select_config configData) text ctype = Throws"
    by (simp add: transformContent_Throws)
  from forward_invalid_rule [OF bad]
  show "(\<exists>evs. POST P w = (JsonError 500 ''Proxy request failed'', evs @ [ConsoleError]))
      \<or> (\<exists>evs. POST P w = (JsonError 413 ''Content too large'', evs))"
    unfolding POST_reaches_forward [OF assms] failed_def by blast
qed

theorem invalid_pattern_aborts_request_witness:
  "invalid_rule sample_platform Url bad_url_rule_config
   \<and> POST sample_platform
         (sample_world bad_url_rule_config ''https://example.com/'' (Returns html_page))
       = (JsonError 500 ''Proxy request failed'', [RequestJson, ConsoleError])
   \<and> invalid_rule sample_platform Content bad_content_rule_config
   \<and> \<not> invalid_rule sample_platform Url bad_content_rule_config
   \<and> fst (POST sample_platform
         (sample_world bad_content_rule_config ''https://example.com/'' (Returns html_page)))
       = JsonError 500 ''Proxy request failed''"
  using invalid_pattern_aborts_request
    [of "sample_world bad_url_rule_config ''https://example.com/'' (Returns html_page)"
        "ConfigObject bad_url_rule_config" "sample_request ''https://example.com/''"
        "''https://example.com/''" sample_platform "''example.com''"]
    invalid_pattern_aborts_request
    [of "sample_world bad_content_rule_config ''https://example.com/'' (Returns html_page)"
        "ConfigObject bad_content_rule_config" "sample_request ''https://example.com/''"
        "''https://example.com/''" sample_platform "''example.com''"]
  by (simp add: POST_def validate_def forward_def read_body_def transform_and_store_def
      failed_def rewriteUrl_def transformContent_def shouldApplyDomainFronting_def
      censoredDomains_def invalid_rule_def sample_world_def sample_request_def
      select_config_def bad_url_rule_config_def bad_content_rule_config_def
      DEFAULT_CONFIG_def html_page_def Headers_get_def toLowerCase_def toLowerCase_char_def
      sample_platform_def sample_hostname_def sample_replace_def)

section \<open>The size limit\<close>

text \<open>
  C3, as the spec states it: false. For a body of 5 bytes under a limit of 3 the request
  is rejected with 413, but only after \<^verbatim>\<open>arrayBuffer()\<close> has buffered all 5 bytes: the
  rejection does not come before the oversized body is buffered, and the memory used is
  not bounded by the limit.
\<close>

theorem content_too_large_counterexample:
  "maxContentLength small_cap_config = 3
   \<and> or_body html_page = Some (Returns ''hello'')
   \<and> length ''hello'' = 5
   \<and> fst (POST sample_platform
         (sample_world small_cap_config ''https://example.com/'' (Returns html_page)))
       = JsonError 413 ''Content too large''
   \<and> last (snd (POST sample_platform
         (sample_world small_cap_config ''https://example.com/'' (Returns html_page))))
       = ArrayBuffer 5"
  by (simp add: POST_def validate_def forward_def read_body_def rewriteUrl_def
      shouldApplyDomainFronting_def censoredDomains_def sample_world_def sample_request_def
      select_config_def small_cap_config_def DEFAULT_CONFIG_def html_page_def
      sample_platform_def sample_hostname_def)

text \<open>
  C3, amended. For every origin response that the handler fetched: a response without a
  body is never rejected as too large; a body that can be read is buffered whole before
  its length is looked at; a body longer than \<open>maxContentLength\<close> gives 413 ``Content too large'' and is
  never handed to the content transformer; a body shorter than \<open>maxContentLength\<close> is not
  rejected as too large and its decoded text is handed to the transformer.
\<close>

theorem content_too_large:
  assumes "edge_config w = Returns configData"
    and "Fetch request \<in> set (snd (POST P w))"
    and "fetch w request = Returns response"
  shows "(or_body response = None \<longrightarrow>
            fst (POST P w) \<noteq> JsonError 413 ''Content too large'')
       \<and> (or_body response = Some (Returns buffer) \<longrightarrow>
            ArrayBuffer (length buffer) \<in> set (snd (POST P w))
            \<and> (maxContentLength (select_config configData) < int (length buffer) \<longrightarrow>
                 fst (POST P w) = JsonError 413 ''Content too large''
                 \<and> (\<forall>text. TransformContent text \<notin> set (snd (POST P w))))
            \<and> (int (length buffer) < maxContentLength (select_config configData) \<longrightarrow>
                 fst (POST P w) \<noteq> JsonError 413 ''Content too large''
                 \<and> TransformContent (utf8_decode P buffer) \<in> set (snd (POST P w))))"
proof -
  from POST_fetched [OF assms(2,1,3)] obtain url line where post:
    "POST P w = read_body P (select_config configData) w url response
                  [RequestJson, ConsoleLog line, Fetch request]"
    by blast
  show ?thesis
    unfolding post
    by (auto simp: read_body_def Let_def transform_and_store_not_413
        intro: transform_and_store_keeps dest!: transform_and_store_events)
qed

theorem content_too_large_witness:
  "Fetch \<lparr>pr_url = ''https://example.com/'', pr_method = ''GET'',
          pr_headers = sanitizeHeaders 1 10 20 Map.empty, pr_body = None\<rparr>
     \<in> set (snd (POST sample_platform
           (sample_world small_cap_config ''https://example.com/'' (Returns html_page))))
   \<and> or_body html_page = Some (Returns ''hello'')
   \<and> maxContentLength (select_config (ConfigObject small_cap_config)) < int (length ''hello'')
   \<and> fst (POST sample_platform
         (sample_world small_cap_config ''https://example.com/'' (Returns html_page)))
       = JsonError 413 ''Content too large''
   \<and> int (length ''hello'') < maxContentLength (select_config (ConfigObject DEFAULT_CONFIG))
   \<and> TransformContent ''hello''
     \<in> set (snd (POST sample_platform
           (sample_world DEFAULT_CONFIG ''https://example.com/'' (Returns html_page))))"
  using content_too_large
    [of "sample_world small_cap_config ''https://example.com/'' (Returns html_page)"
        "ConfigObject small_cap_config"
        "\<lparr>pr_url = ''https://example.com/'', pr_method = ''GET'',
          pr_headers = sanitizeHeaders 1 10 20 Map.empty, pr_body = None\<rparr>"
        sample_platform html_page "''hello''"]
    content_too_large
    [of "sample_world DEFAULT_CONFIG ''https://example.com/'' (Returns html_page)"
        "ConfigObject DEFAULT_CONFIG"
        "\<lparr>pr_url = ''https://example.com/'', pr_method = ''GET'',
          pr_headers = sanitizeHeaders 1 10 20 Map.empty, pr_body = None\<rparr>"
        sample_platform html_page "''hello''"]
  by (simp add: POST_def validate_def forward_def read_body_def transform_and_store_def
      store_and_respond_def failed_def sql_executes_def insert_statement_parameters
      transformContent_def rewriteUrl_def isCacheableResponse_def Let_def
      shouldApplyDomainFronting_def censoredDomains_def sample_world_def sample_request_def
      select_config_def small_cap_config_def DEFAULT_CONFIG_def html_page_def
      Headers_get_def toLowerCase_def toLowerCase_char_def
      sample_platform_def sample_hostname_def)

section \<open>Cache eligibility\<close>

text \<open>
  C4, as the spec states it: false. A response with status 200, no cache-control header
  and the content type \<open>application/json-seq\<close>, which is not \<open>application/json\<close>, is
  not cacheable.
\<close>

theorem isCacheableResponse_counterexample:
  "\<not> isCacheableResponse
       \<lparr>or_status = 200, or_statusText = ''OK'',
        or_headers = [''content-type'' \<mapsto> ''application/json-seq''],
        or_body = Some (Returns ''x'')\<rparr>
   \<and> \<not> (400::nat) \<le> 200
   \<and> Headers_get [''content-type'' \<mapsto> ''application/json-seq''] ''cache-control'' = None
   \<and> Headers_get [''content-type'' \<mapsto> ''application/json-seq''] ''content-type''
       = Some ''application/json-seq''
   \<and> ''application/json-seq'' \<noteq> ''application/json''"
  by (simp add: isCacheableResponse_def Headers_get_def toLowerCase_def toLowerCase_char_def)

text \<open>
  C4, amended. \<^verbatim>\<open>isCacheableResponse\<close> returns false exactly when the status is at least
  400, or the cache-control header contains \<open>no-cache\<close> or \<open>no-store\<close>, or the
  content-type header contains \<open>application/json\<close> as a substring (a missing header
  counts as the empty string); in every other case it returns true.
\<close>

theorem isCacheableResponse_iff:
  "isCacheableResponse response \<longleftrightarrow>
     \<not> (400 \<le> or_status response
        \<or> str_includes (case Headers_get (or_headers response) ''cache-control'' of
                           None \<Rightarrow> [] | Some v \<Rightarrow> v) ''no-cache''
        \<or> str_includes (case Headers_get (or_headers response) ''cache-control'' of
                           None \<Rightarrow> [] | Some v \<Rightarrow> v) ''no-store''
        \<or> str_includes (case Headers_get (or_headers response) ''content-type'' of
                           None \<Rightarrow> [] | Some v \<Rightarrow> v) ''application/json'')"
  by (simp add: isCacheableResponse_def Let_def)

theorem isCacheableResponse_iff_witness:
  "isCacheableResponse html_page
   \<and> \<not> isCacheableResponse (html_page\<lparr>or_status := 404\<rparr>)
   \<and> \<not> isCacheableResponse
         (html_page\<lparr>or_headers := [''content-type'' \<mapsto> ''application/json'']\<rparr>)
   \<and> \<not> isCacheableResponse
         (html_page\<lparr>or_headers := [''content-type'' \<mapsto> ''text/html'',
                                    ''cache-control'' \<mapsto> ''private, no-store'']\<rparr>)"
  using isCacheableResponse_iff [of html_page]
    isCacheableResponse_iff [of "html_page\<lparr>or_status := 404\<rparr>"]
    isCacheableResponse_iff
      [of "html_page\<lparr>or_headers := [''content-type'' \<mapsto> ''application/json'']\<rparr>"]
    isCacheableResponse_iff
      [of "html_page\<lparr>or_headers := [''content-type'' \<mapsto> ''text/html'',
                                      ''cache-control'' \<mapsto> ''private, no-store'']\<rparr>"]
  by (simp add: html_page_def Headers_get_def toLowerCase_def toLowerCase_char_def)

section \<open>The fallback of the service worker\<close>

text \<open>
  C5, as the spec states it: false in its last part. The forwarding call succeeds (status
  200) with the edge function's reply for an origin that answered 204; the \<^verbatim>\<open>Response\<close>
  constructor throws on that status with a body, the catch block reads the client cache
  and, on a miss, the caller receives the 503 placeholder.
\<close>

theorem handleProxyRequest_fallback_counterexample:
  "ok no_content_reply
   \<and> fst (handleProxyRequest (\<lambda>call. Returns no_content_reply) Map.empty
            (get_request ''https://example.com/page'')) = unavailable
   \<and> CacheMatch \<in> set (snd (snd (handleProxyRequest (\<lambda>call. Returns no_content_reply)
            Map.empty (get_request ''https://example.com/page''))))"
  by (simp add: handleProxyRequest_def no_content_reply_def get_request_def ok_def
      new_Response_def null_body_status_def fallback_def caches_match_def)

text \<open>
  C5, amended. Whenever the client cache is read, the caller receives the cached
  response for the request if there is one and the fixed 503 response otherwise, and the
  cache is left as it was. The cache is read in every case but one: the forwarding call
  was made, returned a success status and a JSON reply, and the proxied response could
  be constructed from that reply; then this response is what the caller receives. So the
  cache is read on a network error and on a non-success status, and also when the reply
  cannot be decoded, when the response cannot be constructed, and when the request body
  cannot be read.
\<close>

theorem handleProxyRequest_fallback:
  "(CacheMatch \<in> set (snd (snd (handleProxyRequest edge_fetch cache request))) \<longrightarrow>
      fst (handleProxyRequest edge_fetch cache request)
        = (case caches_match cache request of Some cachedResponse \<Rightarrow> cachedResponse
           | None \<Rightarrow> unavailable)
      \<and> fst (snd (handleProxyRequest edge_fetch cache request)) = cache)
   \<and> (CacheMatch \<notin> set (snd (snd (handleProxyRequest edge_fetch cache request))) \<longleftrightarrow>
        (\<exists>call reply responseData.
           EdgeFetch call \<in> set (snd (snd (handleProxyRequest edge_fetch cache request)))
           \<and> edge_fetch call = Returns reply \<and> ok reply
           \<and> er_json reply = Returns responseData
           \<and> new_Response responseData
               = Returns (fst (handleProxyRequest edge_fetch cache request))))"
  by (auto simp: handleProxyRequest_def fallback_def Let_def
      split: outcome.splits option.splits if_splits)

theorem handleProxyRequest_fallback_witness:
  "CacheMatch \<in> set (snd (snd (handleProxyRequest (\<lambda>call. Throws)
       [''https://example.com/page'' \<mapsto> unavailable\<lparr>sr_body := ''cached'', sr_status := 200\<rparr>]
       (get_request ''https://example.com/page''))))
   \<and> fst (handleProxyRequest (\<lambda>call. Throws)
       [''https://example.com/page'' \<mapsto> unavailable\<lparr>sr_body := ''cached'', sr_status := 200\<rparr>]
       (get_request ''https://example.com/page''))
     = unavailable\<lparr>sr_body := ''cached'', sr_status := 200\<rparr>
   \<and> fst (handleProxyRequest (\<lambda>call. Returns (no_content_reply\<lparr>er_status := 500\<rparr>))
       Map.empty (get_request ''https://example.com/page''))
     = unavailable
   \<and> sr_status unavailable = 503
   \<and> CacheMatch \<notin> set (snd (snd (handleProxyRequest
       (\<lambda>call. Returns (no_content_reply\<lparr>er_json := Returns
           \<lparr>content = ''hi'', contentType = ''text/plain'', status = 200, statusText = ''OK'',
            headers = Map.empty, cacheable = False\<rparr>\<rparr>))
       Map.empty (get_request ''https://example.com/page''))))"
  using handleProxyRequest_fallback [of "\<lambda>call. Throws"
       "[''https://example.com/page'' \<mapsto> unavailable\<lparr>sr_body := ''cached'', sr_status := 200\<rparr>]"
       "get_request ''https://example.com/page''"]
    handleProxyRequest_fallback [of "\<lambda>call. Returns (no_content_reply\<lparr>er_status := 500\<rparr>)"
       Map.empty "get_request ''https://example.com/page''"]
    handleProxyRequest_fallback [of "\<lambda>call. Returns (no_content_reply\<lparr>er_json := Returns
           \<lparr>content = ''hi'', contentType = ''text/plain'', status = 200, statusText = ''OK'',
            headers = Map.empty, cacheable = False\<rparr>\<rparr>)" Map.empty
       "get_request ''https://example.com/page''"]
  by (simp add: handleProxyRequest_def no_content_reply_def get_request_def ok_def
      new_Response_def null_body_status_def fallback_def caches_match_def unavailable_def)

section \<open>Header sanitising\<close>

text \<open>
  C6 on the input \<^verbatim>\<open>{"Cookie": "sid=1"}\<close>. Header names are case-insensitive, and the
  handler itself lower-cases the names of the response headers before it filters them;
  \<^verbatim>\<open>sanitizeHeaders\<close> deletes the key \<^verbatim>\<open>cookie\<close> only, so the cookie header under its
  usual capitalised name is still in the result.
\<close>

theorem sanitizeHeaders_keeps_capitalised_cookie:
  "sanitizeHeaders 0 0 0 [''Cookie'' \<mapsto> ''sid=1''] ''Cookie'' = Some ''sid=1''
   \<and> toLowerCase ''Cookie'' = ''cookie''"
  by (simp add: sanitizeHeaders_def toLowerCase_def toLowerCase_char_def)

section \<open>The server-side cache insert\<close>

text \<open>
  C7 on a cacheable response: the default configuration, a request for
  \<open>https://example.com/\<close>, an origin that answers 200 with an HTML page, a database that
  is up. The handler sends one insert statement with seven values, the first the key made
  of the URL as requested and the time of the write, the last \<open>cacheTTL\<close>. But the
  template puts the last placeholder between the quotes of \<^verbatim>\<open>INTERVAL '$7 seconds'\<close>, so
  the statement has six parameters and cannot be bound with seven values: the awaited
  call throws, the handler answers 500, and no entry with an expiry of now plus
  \<open>cacheTTL\<close> seconds is written.
\<close>

theorem server_cache_insert_rejected:
  "isCacheableResponse html_page
   \<and> str_includes insert_statement (''INTERVAL '' @ [CHR 0x27] @ ''$7 seconds'' @ [CHR 0x27])
   \<and> statement_parameters insert_statement = 6
   \<and> sent_queries (snd (POST sample_platform
         (sample_world DEFAULT_CONFIG ''https://example.com/'' (Returns html_page))))
       = [(insert_statement,
           [SqlText ''proxy:https://example.com/:1700000000000'', SqlText ''hello'',
            SqlText ''text/html'', SqlNumber 200, SqlText ''OK'',
            SqlJson (proxied_headers [''content-type'' \<mapsto> ''text/html'']),
            SqlNumber 3600])]
   \<and> fst (POST sample_platform
         (sample_world DEFAULT_CONFIG ''https://example.com/'' (Returns html_page)))
       = JsonError 500 ''Proxy request failed''
   \<and> last (snd (POST sample_platform
         (sample_world DEFAULT_CONFIG ''https://example.com/'' (Returns html_page))))
       = ConsoleError"
  by (intro conjI insert_statement_text insert_statement_parameters)
     (simp_all add: POST_def validate_def forward_def read_body_def transform_and_store_def
      store_and_respond_def failed_def sql_executes_def insert_statement_parameters
      transformContent_def rewriteUrl_def isCacheableResponse_def Let_def
      shouldApplyDomainFronting_def censoredDomains_def sample_world_def sample_request_def
      select_config_def DEFAULT_CONFIG_def html_page_def
      Headers_get_def toLowerCase_def toLowerCase_char_def
      proxy_cache_key_def String_int_def String_nat.simps digit_char_def
      sample_platform_def sample_hostname_def)

section \<open>Loading the configuration\<close>

text \<open>
  C8, as the spec states it: false when the configuration store throws. The call is inside
  the handler's try block, so the request ends with status 500 and the default
  configuration is never used.
\<close>

theorem POST_config_store_throws_counterexample:
  "POST sample_platform
     ((sample_world DEFAULT_CONFIG ''https://example.com/'' (Returns html_page))
        \<lparr>edge_config := Throws\<rparr>)
     = (JsonError 500 ''Proxy request failed'', [ConsoleError])"
  by (simp add: POST_def failed_def sample_world_def)

text \<open>
  C8, amended. When the configuration store returns something that is not a
  configuration object (an array, or undefined, null or a primitive), the handler
  behaves exactly as if the store held the default configuration, and goes on with the
  request; when the store throws, the handler aborts the request with status 500
  ``Proxy request failed''.
\<close>

theorem POST_config_fallback:
  "(edge_config w = Returns ConfigArray \<or> edge_config w = Returns ConfigPrimitive \<longrightarrow>
      POST P w = POST P (w\<lparr>edge_config := Returns (ConfigObject DEFAULT_CONFIG)\<rparr>))
   \<and> (edge_config w = Throws \<longrightarrow>
        POST P w = (JsonError 500 ''Proxy request failed'', [ConsoleError]))"
  by (auto simp: POST_def failed_def select_config_def validate_edge_config
      cong: outcome.case_cong)

theorem POST_config_fallback_witness:
  "edge_config ((sample_world blocking_config ''https://example.com/'' (Returns no_store_page))
                  \<lparr>edge_config := Returns ConfigPrimitive\<rparr>)
     = Returns ConfigPrimitive
   \<and> fst (POST sample_platform
         ((sample_world blocking_config ''https://example.com/'' (Returns no_store_page))
            \<lparr>edge_config := Returns ConfigPrimitive\<rparr>))
       = fst (POST sample_platform
           (sample_world DEFAULT_CONFIG ''https://example.com/'' (Returns no_store_page)))
   \<and> (\<exists>result. fst (POST sample_platform
           (sample_world DEFAULT_CONFIG ''https://example.com/'' (Returns no_store_page)))
         = JsonOk result)
   \<and> POST sample_platform
         ((sample_world blocking_config ''https://example.com/'' (Returns no_store_page))
            \<lparr>edge_config := Throws\<rparr>)
       = (JsonError 500 ''Proxy request failed'', [ConsoleError])"
  using POST_config_fallback
    [of "(sample_world blocking_config ''https://example.com/'' (Returns no_store_page))
            \<lparr>edge_config := Returns ConfigPrimitive\<rparr>" sample_platform]
    POST_config_fallback
    [of "(sample_world blocking_config ''https://example.com/'' (Returns no_store_page))
            \<lparr>edge_config := Throws\<rparr>" sample_platform]
  by (simp add: POST_def validate_def forward_def read_body_def transform_and_store_def
      store_and_respond_def transformContent_def rewriteUrl_def isCacheableResponse_def Let_def
      shouldApplyDomainFronting_def censoredDomains_def sample_world_def sample_request_def
      select_config_def DEFAULT_CONFIG_def html_page_def no_store_page_def
      Headers_get_def toLowerCase_def toLowerCase_char_def
      sample_platform_def sample_hostname_def)

section \<open>Rewriting a rewritten URL\<close>

text \<open>
  C9, as the spec states it: false. With no rules at all, the URL
  \<open>https://blocked-site.com/x\<close> is rewritten by the domain fronting; the result matches
  no rule's pattern, still contains the censored domain, and is rewritten again into
  something else.
\<close>

theorem rewriteUrl_fixed_point_counterexample:
  "transformRules DEFAULT_CONFIG = []
   \<and> rewriteUrl sample_platform DEFAULT_CONFIG 0 ''https://blocked-site.com/x''
       = Returns ''https://google.com/proxy?url=https%3A%2F%2Fblocked-site.com%2Fx&blocked-site.com/x''
   \<and> rewriteUrl sample_platform DEFAULT_CONFIG 0
         ''https://google.com/proxy?url=https%3A%2F%2Fblocked-site.com%2Fx&blocked-site.com/x''
       \<noteq> Returns ''https://google.com/proxy?url=https%3A%2F%2Fblocked-site.com%2Fx&blocked-site.com/x''"
  by (simp add: rewriteUrl_def DEFAULT_CONFIG_def shouldApplyDomainFronting_def
      censoredDomains_def applyDomainFronting_def frontDomains_def random_index_def
      encodeURIComponent_def uri_unreserved_def percent_encode_def hex_digit_def)

text \<open>
  C9, amended. For every rule set and every URL \<open>u\<close>: if \<^verbatim>\<open>rewriteUrl(u)\<close> returns a URL
  that matches no URL rule's pattern and contains none of the censored domains (so that
  the domain fronting does not apply to it), then rewriting that URL again returns it
  unchanged. The engine is assumed to leave a string alone when the pattern does not
  match it.
\<close>

theorem rewriteUrl_fixed_point:
  assumes "regexp_lawful P"
    and "rewriteUrl P config d u = Returns r"
    and "\<forall>rule \<in> set (transformRules config).
           type rule = Url \<longrightarrow> \<not> regexp_test P (pattern rule) r"
    and "\<not> shouldApplyDomainFronting r"
  shows "rewriteUrl P config d' r = Returns r"
proof -
  from assms(2) have "rewriteUrl P config d u \<noteq> Throws" by simp
  then have "\<not> invalid_rule P Url config"
    by (simp add: rewriteUrl_Throws_iff)
  then have "apply_rules P Url (transformRules config) r = Returns r"
    using apply_rules_no_match [OF assms(1) _ assms(3)] by (simp add: invalid_rule_def)
  with assms(4) show ?thesis by (simp add: rewriteUrl_def)
qed

theorem rewriteUrl_fixed_point_witness:
  "regexp_lawful sample_platform
   \<and> rewriteUrl sample_platform upgrade_config 0 ''http://example.com/''
       = Returns ''https://example.com/''
   \<and> \<not> regexp_test sample_platform ''http:'' ''https://example.com/''
   \<and> \<not> shouldApplyDomainFronting ''https://example.com/''
   \<and> rewriteUrl sample_platform upgrade_config 1 ''https://example.com/''
       = Returns ''https://example.com/''"
  using rewriteUrl_fixed_point [of sample_platform upgrade_config 0 "''http://example.com/''"
      "''https://example.com/''" 1] sample_platform_lawful
  by (simp add: rewriteUrl_def upgrade_config_def DEFAULT_CONFIG_def
      shouldApplyDomainFronting_def censoredDomains_def sample_platform_def sample_replace_def)

end
